theory Spec2Isabelle
  imports Main
begin

section \<open>The NER/SRL configuration document\<close>

text \<open>
  The repository's first file is a YAML document of block mappings and scalars. It is
  embedded as the tree a YAML loader builds from it: a node is a scalar, kept as the text
  it is written with together with its quoting style, or a mapping from keys to nodes in
  the order of the file. Keys are given by their content (the two keys written \<open>'type'\<close>
  and \<open>"type"\<close> are the key \<open>type\<close>). Comments and blank lines carry no data and are
  left out; the document ends at the separator that follows \<open>batch_size: 1\<close>.
\<close>

datatype style = Plain | SingleQuoted | DoubleQuoted

datatype yaml = Scalar style string | Mapping "(string \<times> yaml) list"

definition config :: yaml where
  "config = Mapping [
     (''NER'', Mapping [
        (''config_data'', Mapping [
           (''max_char_length'', Scalar Plain ''45''),
           (''num_char_pad'', Scalar Plain ''2'')]),
        (''config_model'', Mapping [
           (''resource_dir'', Scalar DoubleQuoted ''resources/ner''),
           (''output_hidden_size'', Scalar Plain ''128''),
           (''dropout_rate'', Scalar Plain ''0.3''),
           (''char_emb'', Mapping [
              (''dim'', Scalar Plain ''30''),
              (''initializer'', Mapping [
                 (''type'', Scalar SingleQuoted ''normal_'')])]),
           (''char_cnn_conv'', Mapping [
              (''in_channels'', Scalar Plain ''30''),
              (''out_channels'', Scalar Plain ''30''),
              (''kernel_size'', Scalar Plain ''3''),
              (''padding'', Scalar Plain ''2'')]),
           (''bilstm_sentence_encoder'', Mapping [
              (''rnn_cell_fw'', Mapping [
                 (''input_size'', Scalar Plain ''130''),
                 (''type'', Scalar Plain ''LSTMCell''),
                 (''kwargs'', Mapping [
                    (''num_units'', Scalar Plain ''128'')])]),
              (''rnn_cell_share_config'', Scalar Plain ''yes''),
              (''output_layer_fw'', Mapping [
                 (''num_layers'', Scalar Plain ''0'')]),
              (''output_layer_share_config'', Scalar Plain ''yes'')]),
           (''initializer'', Mapping [
              (''type'', Scalar DoubleQuoted ''xavier_uniform_'')]),
           (''random_seed'', Scalar Plain ''1234'')])]),
     (''SRL'', Mapping [
        (''storage_path'', Scalar DoubleQuoted ''resources/srl''),
        (''batcher'', Mapping [
           (''batch_size'', Scalar Plain ''1'')])])]"

subsection \<open>Paths, leaves and keys\<close>

text \<open>
  \<open>lookup t p\<close> follows the keys of \<open>p\<close> from the node \<open>t\<close>; a missing key, or a key
  asked of a scalar, gives \<open>None\<close>.
\<close>

fun lookup :: "yaml \<Rightarrow> string list \<Rightarrow> yaml option" where
  "lookup t [] = Some t"
| "lookup (Scalar s v) (k # ks) = None"
| "lookup (Mapping kvs) (k # ks) =
     (case map_of kvs k of None \<Rightarrow> None | Some t \<Rightarrow> lookup t ks)"

text \<open>The leaves of a tree, each with the path of keys that leads to it, in file order.\<close>

fun leaves :: "yaml \<Rightarrow> (string list \<times> style \<times> string) list" where
  "leaves (Scalar s v) = [([], s, v)]"
| "leaves (Mapping kvs) =
     concat (map (\<lambda>(k, t). map (\<lambda>(p, l). (k # p, l)) (leaves t)) kvs)"

text \<open>Every key of every mapping of a tree, in file order.\<close>

fun all_keys :: "yaml \<Rightarrow> string list" where
  "all_keys (Scalar s v) = []"
| "all_keys (Mapping kvs) = concat (map (\<lambda>(k, t). k # all_keys t) kvs)"

subsection \<open>The type of a scalar\<close>

text \<open>
  A quoted scalar is a string. A plain scalar gets its type from its text, by the rules of
  YAML 1.1 that the Python loader applies: one of the eighteen spellings of a truth value
  is a boolean, a decimal numeral is an integer, a numeral with a decimal point is a float,
  \<open>~\<close> and the spellings of null are null, and anything else is a string. Of the
  numeric notations only the decimal ones are modelled (no binary, octal, hexadecimal or
  sexagesimal numeral, no digit separator and no exponent).
\<close>

datatype tag = TInt | TFloat | TBool | TNull | TStr

definition is_digit :: "char \<Rightarrow> bool" where
  "is_digit c = List.member ''0123456789'' c"

definition strip_sign :: "string \<Rightarrow> string" where
  "strip_sign s =
     (case s of [] \<Rightarrow> []
      | c # r \<Rightarrow> if c = CHR ''-'' then r else if c = CHR ''+'' then r else s)"

text \<open>\<open>0\<close>, or a digit other than \<open>0\<close> followed by digits.\<close>

definition decimal :: "string \<Rightarrow> bool" where
  "decimal s =
     (case s of [] \<Rightarrow> False
      | c # r \<Rightarrow> if c = CHR ''0'' then r = [] else is_digit c \<and> list_all is_digit r)"

definition int_lexeme :: "string \<Rightarrow> bool" where
  "int_lexeme s = decimal (strip_sign s)"

text \<open>
  Digits, starting with one, then a point, then digits (possibly none), with an optional
  sign; or a point followed by at least one digit.
\<close>

definition float_lexeme :: "string \<Rightarrow> bool" where
  "float_lexeme s =
     (let r = strip_sign s;
          whole = takeWhile is_digit r;
          rest = dropWhile is_digit r
      in case s of [] \<Rightarrow> False
         | d # ds \<Rightarrow>
             if d = CHR ''.'' then (if ds = [] then False else list_all is_digit ds)
             else (case rest of [] \<Rightarrow> False
                   | c # frac \<Rightarrow> if whole = [] then False
                                 else c = CHR ''.'' \<and> list_all is_digit frac))"

definition bool_lexeme :: "string \<Rightarrow> bool" where
  "bool_lexeme s = List.member
     [''yes'', ''Yes'', ''YES'', ''no'', ''No'', ''NO'',
      ''true'', ''True'', ''TRUE'', ''false'', ''False'', ''FALSE'',
      ''on'', ''On'', ''ON'', ''off'', ''Off'', ''OFF''] s"

definition null_lexeme :: "string \<Rightarrow> bool" where
  "null_lexeme s = List.member [''~'', ''null'', ''Null'', ''NULL'', ''''] s"

definition resolve :: "style \<Rightarrow> string \<Rightarrow> tag" where
  "resolve st s =
     (case st of
        Plain \<Rightarrow>
          if bool_lexeme s then TBool
          else if int_lexeme s then TInt
          else if float_lexeme s then TFloat
          else if null_lexeme s then TNull
          else TStr
      | SingleQuoted \<Rightarrow> TStr
      | DoubleQuoted \<Rightarrow> TStr)"

text \<open>The value of a decimal numeral.\<close>

definition digit_val :: "char \<Rightarrow> nat" where
  "digit_val c = of_char c - 48"

definition nat_of_digits :: "string \<Rightarrow> nat" where
  "nat_of_digits s = foldl (\<lambda>n c. 10 * n + digit_val c) 0 s"

definition int_value :: "string \<Rightarrow> int" where
  "int_value s =
     (case s of [] \<Rightarrow> 0
      | c # r \<Rightarrow> if c = CHR ''-'' then - int (nat_of_digits r)
                 else int (nat_of_digits (strip_sign s)))"

text \<open>The integer at a path: \<open>None\<close> when the path leads to no integer leaf.\<close>

definition int_at :: "yaml \<Rightarrow> string list \<Rightarrow> int option" where
  "int_at t p =
     (case lookup t p of
        None \<Rightarrow> None
      | Some (Mapping kvs) \<Rightarrow> None
      | Some (Scalar st s) \<Rightarrow> if resolve st s = TInt then Some (int_value s) else None)"

text \<open>The type at a path: \<open>None\<close> when the path leads to no leaf.\<close>

definition tag_at :: "yaml \<Rightarrow> string list \<Rightarrow> tag option" where
  "tag_at t p =
     (case lookup t p of
        None \<Rightarrow> None
      | Some (Mapping kvs) \<Rightarrow> None
      | Some (Scalar st s) \<Rightarrow> Some (resolve st s))"

subsection \<open>Numeric leaves\<close>

definition numeric :: "style \<Rightarrow> string \<Rightarrow> bool" where
  "numeric st s = List.member [TInt, TFloat] (resolve st s)"

definition positive_integer :: "style \<Rightarrow> string \<Rightarrow> bool" where
  "positive_integer st s = (resolve st s = TInt \<and> 0 < int_value s)"

definition numeric_leaves :: "yaml \<Rightarrow> (string list \<times> style \<times> string) list" where
  "numeric_leaves t = filter (\<lambda>(p, st, s). numeric st s) (leaves t)"

text \<open>The schema property "all numeric fields are positive integers".\<close>

definition all_numeric_positive_integers :: "yaml \<Rightarrow> bool" where
  "all_numeric_positive_integers t =
     list_all (\<lambda>(p, st, s). positive_integer st s) (numeric_leaves t)"

text \<open>The schema property "every leaf is an integer or a string".\<close>

definition all_leaves_int_or_str :: "yaml \<Rightarrow> bool" where
  "all_leaves_int_or_str t =
     list_all (\<lambda>(p, st, s). List.member [TInt, TStr] (resolve st s)) (leaves t)"

section \<open>The data-augmentation tutorial notebook\<close>

text \<open>
  The notebook is a list of cells. A markdown cell is kept as the lines of its source,
  without their line terminators. A code cell is kept as the Python statements it holds,
  in the abstract syntax of the language; the comment line and the blank lines of the cell
  are left out.
\<close>

datatype pyexpr =
    Str string
  | Name string
  | Attribute pyexpr string
  | Subscript pyexpr pyexpr
  | Dict "(pyexpr \<times> pyexpr) list"
  | Call pyexpr "pyexpr list" "(string \<times> pyexpr) list"

datatype pystmt =
    ImportFrom string "string list"
  | Assign string pyexpr
  | Expr pyexpr
  | ClassDef string "pystmt list"
  | FunctionDef string "pystmt list"

datatype cell = Markdown "string list" | Code "pystmt list"

text \<open>The dictionary literal bound to \<open>processor_config\<close> in the code cell.\<close>

definition processor_config :: pyexpr where
  "processor_config = Dict [
     (Str ''augment_entry'', Str ''ft.onto.base_ontology.Token''),
     (Str ''other_entry_policy'', Dict [
        (Str ''kwargs'', Dict [
           (Str ''ft.onto.base_ontology.Document'', Str ''auto_align''),
           (Str ''ft.onto.base_ontology.Sentence'', Str ''auto_align'')])]),
     (Str ''type'', Str ''data_augmentation_op''),
     (Str ''data_aug_op'',
      Str ''forte.processors.data_augment.algorithms.back_translation_op.BackTranslationOp''),
     (Str ''data_aug_op_config'', Dict [
        (Str ''kwargs'', Dict [
           (Str ''model_to'',
            Str ''forte.processors.data_augment.algorithms.machine_translator.MarianMachineTranslator''),
           (Str ''model_back'',
            Str ''forte.processors.data_augment.algorithms.machine_translator.MarianMachineTranslator''),
           (Str ''src_language'', Str ''en''),
           (Str ''tgt_language'', Str ''fr''),
           (Str ''device'', Str ''cpu'')])])]"

definition notebook :: "cell list" where
  \<open>notebook =
    [Markdown
       [''# This is a tutorial for the data augmentation. ''],
     Markdown
       [''You can use the data augmentation by simply add a processor in the pipeline. Take Back-Translation for an example:''],
     Code
       [ImportFrom ''forte.processors.base.data_augment_processor''
          [''ReplacementDataAugmentProcessor''],
        ImportFrom ''forte.pipeline'' [''Pipeline''],
        Assign ''nlp'' (Call (Subscript (Name ''Pipeline'') (Name ''MultiPack'')) [] []),
        Assign ''processor_config'' processor_config,
        Assign ''processor'' (Call (Name ''ReplacementDataAugmentProcessor'') [] []),
        Expr (Call (Attribute (Name ''nlp'') ''add'') []
                [(''component'', Name ''processor''), (''configs'', Name ''processor_config'')])],
     Markdown
       [''## Text Replacement Ops'',
        '''',
        ''Lots of data augmentation methods can be considered as replacement-based approaches. That means, given a piece of input text, we will replace it with a new piece of augmented text. The back translation achieves this by translating the input into another language, then translating it back, and replacing the input with back-translated text.'',
        '''',
        ''We wrapped these algorithms as the text replacement ops:'',
        '''',
        ''1. *`DictionaryReplacementOp`*:'',
        ''    It utilizes the dictionaries, such as WORDNET, to replace the input word.'',
        ''2. *`BackTranslationOp`*:'',
        ''    It uses back translation to generate data with the same semantic meanings.'',
        ''3. *`DistributionReplacementOp`*:'',
        ''    It samples from a distribution to generate word-level new text.'',
        ''4. *`EmbeddingSimilarityOp`*:'',
        ''    It leverages pre-trained word embeddings, such as word2vec and glove, to replace the input word with another word with similar word embedding.'',
        '''',
        ''The replacement ops should be under the *`'forte.processors.data_augment.algorithms'`*. To use these algorithms, set the value of *`'data_aug_op'`* in the configuration to full qualified name of the replacement op, and set the configuration of the replacement op in the *`'kwargs'`* under the field *`'data_aug_op_config'`*. Please check the documentation for specific configuration requirements of each replacement op.''],
     Markdown
       [''## Replacement-based Processor'',
        '''',
        ''The processor *`'ReplacementDataAugmentProcessor'`* is responsible for managing the Forte data structures. Given a *`MultiPack`* as input, it will call the text replacement op to implement a specific data augmentation algorithm. Afterwards, it will handle the Forte data structures automatically. The output is the original *`MultiPack`*, with orignal *`DataPack`*s and new augmented *`DataPack`*s.'',
        '''',
        ''For example, given an input *`MultiPack`*:'',
        '''',
        ''    input(MultiPack){'',
        ''        dp1(DataPack): {'',
        ''            "I love NLP!"'',
        ''        }'',
        ''        dp2(DataPack): {'',
        ''            "Forte makes NLP easier."'',
        ''        }'',
        ''    }'',
        '''',
        ''The output should be the same *`MultiPack`* with new *`DataPack`*s:'',
        '''',
        ''    output(MultiPack){'',
        ''        dp1(DataPack): {'',
        ''            "I love NLP!"'',
        ''        }'',
        ''        dp2(DataPack): {'',
        ''            "Forte makes NLP easier."'',
        ''        }'',
        ''        dp1-aug(DataPack): {'',
        ''            "I love Natural Language Processing!"'',
        ''        }'',
        ''        dp2-aug(DataPack): {'',
        ''            "Forte makes Natural Language Processing easier."'',
        ''        }'',
        ''    }'',
        '''',
        ''The *`'augment_entry'`* defines the entry the processor will augment. It should be a full qualified name of the entry class.'',
        '''',
        ''The *`'other_entry_policy'`* specifies the policies for entries other than the *`'augment_entry'`*. If the policy is *`'auto_align'`*, the span of the Annotation will be automatically modified according to its original location.'',
        '''',
        ''The *`Link`*, *`MultiPackLink`*, *`Group`* and *`MultiPackGroup`* are automatically copied if the *`Annotation`*s they attached to are present in the new *`DataPack`*.'']]\<close>

subsection \<open>Cells\<close>

definition code_of :: "cell list \<Rightarrow> pystmt list" where
  "code_of nb = concat (map (\<lambda>c. case c of Code ss \<Rightarrow> ss | Markdown ls \<Rightarrow> []) nb)"

definition markdown_of :: "cell list \<Rightarrow> string list" where
  "markdown_of nb = concat (map (\<lambda>c. case c of Code ss \<Rightarrow> [] | Markdown ls \<Rightarrow> ls) nb)"

text \<open>
  The code spans of a markdown line: the texts between one backquote and the next. A span
  that is opened and never closed is no span.
\<close>

fun spans :: "bool \<Rightarrow> string \<Rightarrow> string \<Rightarrow> string list" where
  "spans inside cur [] = []"
| "spans inside cur (c # cs) =
     (if c = CHR ''`''
      then (if inside then rev cur # spans False [] cs else spans True [] cs)
      else spans inside (if inside then c # cur else cur) cs)"

definition code_spans :: "string \<Rightarrow> string list" where
  "code_spans s = spans False [] s"

subsection \<open>Dictionaries\<close>

text \<open>
  A dictionary literal is evaluated entry by entry: a key that is new is added after the
  ones already there, and a key that is there already gets the new value in its place.
\<close>

fun setitem :: "(pyexpr \<times> pyexpr) list \<Rightarrow> pyexpr \<Rightarrow> pyexpr \<Rightarrow> (pyexpr \<times> pyexpr) list" where
  "setitem [] k v = [(k, v)]"
| "setitem ((k', v') # d) k v =
     (if k' = k then (k', v) # d else (k', v') # setitem d k v)"

definition dict_items :: "pyexpr \<Rightarrow> (pyexpr \<times> pyexpr) list" where
  "dict_items e =
     (case e of Dict kvs \<Rightarrow> foldl (\<lambda>d (k, v). setitem d k v) [] kvs
      | Str s \<Rightarrow> [] | Name n \<Rightarrow> [] | Attribute a n \<Rightarrow> [] | Subscript a i \<Rightarrow> []
      | Call f as kws \<Rightarrow> [])"

definition dict_keys :: "pyexpr \<Rightarrow> pyexpr list" where
  "dict_keys e = map fst (dict_items e)"

text \<open>\<open>d[k]\<close> for a string key \<open>k\<close>; \<open>None\<close> where Python raises.\<close>

definition getitem :: "pyexpr \<Rightarrow> string \<Rightarrow> pyexpr option" where
  "getitem d k = map_of (dict_items d) (Str k)"

subsection \<open>Qualified names\<close>

text \<open>The pieces of a text between the occurrences of a separator.\<close>

fun split_on :: "char \<Rightarrow> string \<Rightarrow> string \<Rightarrow> string list" where
  "split_on sep cur [] = [rev cur]"
| "split_on sep cur (c # cs) =
     (if c = sep then rev cur # split_on sep [] cs else split_on sep (c # cur) cs)"

definition components :: "string \<Rightarrow> string list" where
  "components s = split_on CHR ''.'' [] s"

text \<open>
  A fully qualified name is a dotted module path followed by the name of a class. It is
  under a package when the components of the package begin its module path.
\<close>

definition module_path :: "string \<Rightarrow> string list" where
  "module_path qn = butlast (components qn)"

definition class_name :: "string \<Rightarrow> string" where
  "class_name qn = (case rev (components qn) of [] \<Rightarrow> [] | n # ms \<Rightarrow> n)"

definition under_package :: "string \<Rightarrow> string \<Rightarrow> bool" where
  "under_package pkg qn =
     (take (length (components pkg)) (module_path qn) = components pkg)"

text \<open>A text without the single quotes that the notebook writes around a name.\<close>

definition unquote :: "string \<Rightarrow> string" where
  "unquote s = filter (\<lambda>c. of_char c = (39::nat) = False) s"

subsection \<open>Names that statements bind\<close>

text \<open>The names a class or function definition introduces, at any depth.\<close>

fun defined_names :: "pystmt \<Rightarrow> string list" where
  "defined_names (ImportFrom m ns) = []"
| "defined_names (Assign x e) = []"
| "defined_names (Expr e) = []"
| "defined_names (ClassDef n body) = n # concat (map defined_names body)"
| "defined_names (FunctionDef n body) = n # concat (map defined_names body)"

text \<open>The names a statement binds: imported, assigned or defined.\<close>

fun bound_names :: "pystmt \<Rightarrow> string list" where
  "bound_names (ImportFrom m ns) = ns"
| "bound_names (Assign x e) = [x]"
| "bound_names (Expr e) = []"
| "bound_names (ClassDef n body) = n # concat (map bound_names body)"
| "bound_names (FunctionDef n body) = n # concat (map bound_names body)"

text \<open>The four replacement ops, by the class names the notebook gives them.\<close>

definition replacement_ops :: "string list" where
  "replacement_ops =
     [''BackTranslationOp'', ''DictionaryReplacementOp'', ''DistributionReplacementOp'',
      ''EmbeddingSimilarityOp'']"

section \<open>The shell commands\<close>

text \<open>
  The lines that follow the notebook in its file: the commands of the \<open>da_rl\<close> example.
\<close>

definition da_rl_script :: "string list" where
  "da_rl_script =
    [''# under examples/da_rl dir'',
     ''# prepare data'',
     ''python download_imdb.py'',
     ''python utils/imdb_format.py --raw_data_dir=data/IMDB_raw/aclImdb --train_id_path=data/IMDB_raw/train_id_list.txt --output_dir=data/IMDB'',
     ''python prepare_dataset.py'',
     ''# run model'',
     ''python main.py --do-train --do-eval --do-test'']"

text \<open>
  A line whose first character is \<open>#\<close> is a comment and an empty line is no command; any
  other line is a command, split into its words at the spaces. No line of the script has
  a quote, a variable or an operator of the shell.
\<close>

definition is_command :: "string \<Rightarrow> bool" where
  "is_command l =
     (case dropWhile (\<lambda>c. c = CHR '' '') l of [] \<Rightarrow> False
      | c # cs \<Rightarrow> if c = CHR ''#'' then False else True)"

definition words_of :: "string \<Rightarrow> string list" where
  "words_of l = filter (\<lambda>w. if w = [] then False else True) (split_on CHR '' '' [] l)"

definition invocations :: "string list \<Rightarrow> string list list" where
  "invocations ls = map words_of (filter is_command ls)"

definition run_flags :: "string list" where
  "run_flags = [''--do-train'', ''--do-eval'', ''--do-test'']"

text \<open>The words of an invocation that are among the three flags.\<close>

definition run_flags_of :: "string list \<Rightarrow> string list" where
  "run_flags_of ws = filter (List.member run_flags) ws"

section \<open>Properties of the configuration\<close>

lemma int_at_in_channels:
  "int_at config [''NER'', ''config_model'', ''char_cnn_conv'', ''in_channels''] = Some 30"
  by code_simp

lemma int_at_char_emb_dim:
  "int_at config [''NER'', ''config_model'', ''char_emb'', ''dim''] = Some 30"
  by code_simp

lemma int_at_input_size:
  "int_at config
     [''NER'', ''config_model'', ''bilstm_sentence_encoder'', ''rnn_cell_fw'', ''input_size'']
   = Some 130"
  by code_simp

lemma typed_leaves_config:
  "map (\<lambda>(p, st, s). (p, resolve st s, s)) (leaves config) =
   [([''NER'', ''config_data'', ''max_char_length''], TInt, ''45''),
    ([''NER'', ''config_data'', ''num_char_pad''], TInt, ''2''),
    ([''NER'', ''config_model'', ''resource_dir''], TStr, ''resources/ner''),
    ([''NER'', ''config_model'', ''output_hidden_size''], TInt, ''128''),
    ([''NER'', ''config_model'', ''dropout_rate''], TFloat, ''0.3''),
    ([''NER'', ''config_model'', ''char_emb'', ''dim''], TInt, ''30''),
    ([''NER'', ''config_model'', ''char_emb'', ''initializer'', ''type''], TStr, ''normal_''),
    ([''NER'', ''config_model'', ''char_cnn_conv'', ''in_channels''], TInt, ''30''),
    ([''NER'', ''config_model'', ''char_cnn_conv'', ''out_channels''], TInt, ''30''),
    ([''NER'', ''config_model'', ''char_cnn_conv'', ''kernel_size''], TInt, ''3''),
    ([''NER'', ''config_model'', ''char_cnn_conv'', ''padding''], TInt, ''2''),
    ([''NER'', ''config_model'', ''bilstm_sentence_encoder'', ''rnn_cell_fw'', ''input_size''],
     TInt, ''130''),
    ([''NER'', ''config_model'', ''bilstm_sentence_encoder'', ''rnn_cell_fw'', ''type''],
     TStr, ''LSTMCell''),
    ([''NER'', ''config_model'', ''bilstm_sentence_encoder'', ''rnn_cell_fw'', ''kwargs'',
      ''num_units''], TInt, ''128''),
    ([''NER'', ''config_model'', ''bilstm_sentence_encoder'', ''rnn_cell_share_config''],
     TBool, ''yes''),
    ([''NER'', ''config_model'', ''bilstm_sentence_encoder'', ''output_layer_fw'',
      ''num_layers''], TInt, ''0''),
    ([''NER'', ''config_model'', ''bilstm_sentence_encoder'', ''output_layer_share_config''],
     TBool, ''yes''),
    ([''NER'', ''config_model'', ''initializer'', ''type''], TStr, ''xavier_uniform_''),
    ([''NER'', ''config_model'', ''random_seed''], TInt, ''1234''),
    ([''SRL'', ''storage_path''], TStr, ''resources/srl''),
    ([''SRL'', ''batcher'', ''batch_size''], TInt, ''1'')]"
  by code_simp

text \<open>
  C1, as stated: every numeric leaf of the configuration is a positive integer. It fails:
  \<open>NER.config_model.dropout_rate\<close> is the numeric leaf \<open>0.3\<close>, which is a float and not
  an integer.
\<close>

theorem numeric_leaves_not_all_positive_integers:
  "all_numeric_positive_integers config = False
   \<and> lookup config [''NER'', ''config_model'', ''dropout_rate''] = Some (Scalar Plain ''0.3'')
   \<and> numeric Plain ''0.3'' = True
   \<and> positive_integer Plain ''0.3'' = False"
  by code_simp

text \<open>
  C1, amended: every numeric leaf of the configuration is a positive integer, except
  \<open>NER.config_model.dropout_rate\<close>, which is the float \<open>0.3\<close>, and
  \<open>NER.config_model.bilstm_sentence_encoder.output_layer_fw.num_layers\<close>, which is the
  integer 0. The twelve positive integers are listed with their values.
\<close>

theorem numeric_leaves_positive_integers_but_two:
  "filter (\<lambda>(p, st, s). positive_integer st s = False) (numeric_leaves config) =
     [([''NER'', ''config_model'', ''dropout_rate''], Plain, ''0.3''),
      ([''NER'', ''config_model'', ''bilstm_sentence_encoder'', ''output_layer_fw'',
        ''num_layers''], Plain, ''0'')]
   \<and> resolve Plain ''0.3'' = TFloat
   \<and> int_at config
        [''NER'', ''config_model'', ''bilstm_sentence_encoder'', ''output_layer_fw'',
         ''num_layers''] = Some 0
   \<and> map (\<lambda>(p, st, s). (p, int_value s))
        (filter (\<lambda>(p, st, s). positive_integer st s) (numeric_leaves config)) =
     [([''NER'', ''config_data'', ''max_char_length''], 45),
      ([''NER'', ''config_data'', ''num_char_pad''], 2),
      ([''NER'', ''config_model'', ''output_hidden_size''], 128),
      ([''NER'', ''config_model'', ''char_emb'', ''dim''], 30),
      ([''NER'', ''config_model'', ''char_cnn_conv'', ''in_channels''], 30),
      ([''NER'', ''config_model'', ''char_cnn_conv'', ''out_channels''], 30),
      ([''NER'', ''config_model'', ''char_cnn_conv'', ''kernel_size''], 3),
      ([''NER'', ''config_model'', ''char_cnn_conv'', ''padding''], 2),
      ([''NER'', ''config_model'', ''bilstm_sentence_encoder'', ''rnn_cell_fw'',
        ''input_size''], 130),
      ([''NER'', ''config_model'', ''bilstm_sentence_encoder'', ''rnn_cell_fw'', ''kwargs'',
        ''num_units''], 128),
      ([''NER'', ''config_model'', ''random_seed''], 1234),
      ([''SRL'', ''batcher'', ''batch_size''], 1)]"
  by code_simp

text \<open>
  C2, as stated: every leaf of the configuration is an integer or a string (the nested
  mappings being the inner nodes). It fails: \<open>NER.config_model.dropout_rate\<close> is the
  float \<open>0.3\<close>.
\<close>

theorem leaves_not_all_int_or_str:
  "all_leaves_int_or_str config = False
   \<and> tag_at config [''NER'', ''config_model'', ''dropout_rate''] = Some TFloat"
  by code_simp

text \<open>
  C2, amended: every leaf of the configuration is an integer, a string, a float or a
  boolean, and every inner node is a nested mapping. The leaves that are neither an
  integer nor a string are \<open>dropout_rate\<close>, the float \<open>0.3\<close>, and
  \<open>rnn_cell_share_config\<close> and \<open>output_layer_share_config\<close>, both the plain scalar
  \<open>yes\<close>, a boolean.
\<close>

theorem leaves_int_str_float_or_bool:
  "list_all (\<lambda>(p, st, s). List.member [TInt, TStr, TFloat, TBool] (resolve st s))
     (leaves config)
   \<and> map (\<lambda>(p, st, s). (p, resolve st s, s))
        (filter (\<lambda>(p, st, s). List.member [TInt, TStr] (resolve st s) = False)
           (leaves config)) =
     [([''NER'', ''config_model'', ''dropout_rate''], TFloat, ''0.3''),
      ([''NER'', ''config_model'', ''bilstm_sentence_encoder'', ''rnn_cell_share_config''],
       TBool, ''yes''),
      ([''NER'', ''config_model'', ''bilstm_sentence_encoder'',
        ''output_layer_share_config''], TBool, ''yes'')]"
  by code_simp

text \<open>
  C3. The configuration has a leaf at each of the paths
  \<open>NER.config_data.max_char_length\<close>, \<open>NER.config_model.char_emb.dim\<close> and
  \<open>NER.config_model.bilstm_sentence_encoder.rnn_cell_fw.kwargs.num_units\<close> (the integers
  45, 30 and 128), and it holds the resource paths \<open>resources/ner\<close> and \<open>resources/srl\<close>
  as strings, at \<open>NER.config_model.resource_dir\<close> and \<open>SRL.storage_path\<close>.
\<close>

theorem hyperparameter_leaves_and_resource_paths:
  "lookup config [''NER'', ''config_data'', ''max_char_length''] = Some (Scalar Plain ''45'')
   \<and> lookup config [''NER'', ''config_model'', ''char_emb'', ''dim'']
       = Some (Scalar Plain ''30'')
   \<and> lookup config
        [''NER'', ''config_model'', ''bilstm_sentence_encoder'', ''rnn_cell_fw'', ''kwargs'',
         ''num_units''] = Some (Scalar Plain ''128'')
   \<and> int_at config [''NER'', ''config_data'', ''max_char_length''] = Some 45
   \<and> int_at config
        [''NER'', ''config_model'', ''bilstm_sentence_encoder'', ''rnn_cell_fw'', ''kwargs'',
         ''num_units''] = Some 128
   \<and> lookup config [''NER'', ''config_model'', ''resource_dir'']
       = Some (Scalar DoubleQuoted ''resources/ner'')
   \<and> tag_at config [''NER'', ''config_model'', ''resource_dir''] = Some TStr
   \<and> lookup config [''SRL'', ''storage_path''] = Some (Scalar DoubleQuoted ''resources/srl'')
   \<and> tag_at config [''SRL'', ''storage_path''] = Some TStr"
  by code_simp

text \<open>
  C8. In the configuration, \<open>NER.config_model.char_cnn_conv.in_channels\<close> and
  \<open>NER.config_model.char_emb.dim\<close> are both the integer 30, so the input width of the
  character CNN equals the dimension of the character embedding.
\<close>

theorem char_cnn_in_channels_eq_char_emb_dim:
  "int_at config [''NER'', ''config_model'', ''char_cnn_conv'', ''in_channels''] = Some 30
   \<and> int_at config [''NER'', ''config_model'', ''char_emb'', ''dim''] = Some 30
   \<and> int_at config [''NER'', ''config_model'', ''char_cnn_conv'', ''in_channels'']
       = int_at config [''NER'', ''config_model'', ''char_emb'', ''dim'']"
  by (simp add: int_at_in_channels int_at_char_emb_dim)

text \<open>
  C9. \<open>NER.config_model.bilstm_sentence_encoder.rnn_cell_fw.input_size\<close> is 130 and
  \<open>NER.config_model.char_emb.dim\<close> is 30, so the first exceeds the second by exactly
  100; no mapping of the document has a key \<open>word_emb\<close>, so there is no \<open>word_emb.dim\<close>.
  The comment above \<open>rnn_cell_fw\<close> asks for the input size to be the sum of the character
  and the word embedding dimensions: with the character dimension \<open>c\<close> and a word
  dimension \<open>w\<close>, the document's two values satisfy that sum exactly when \<open>c\<close> is 30 and
  \<open>w\<close> is 100.
\<close>

theorem input_size_pins_word_emb_dim:
  "int_at config
     [''NER'', ''config_model'', ''bilstm_sentence_encoder'', ''rnn_cell_fw'', ''input_size'']
     = Some 130
   \<and> int_at config [''NER'', ''config_model'', ''char_emb'', ''dim''] = Some 30
   \<and> (130::int) - 30 = 100
   \<and> List.member (all_keys config) ''word_emb'' = False
   \<and> lookup config [''NER'', ''config_model'', ''word_emb'', ''dim''] = None
   \<and> ((int_at config [''NER'', ''config_model'', ''char_emb'', ''dim''] = Some c
        \<and> int_at config
             [''NER'', ''config_model'', ''bilstm_sentence_encoder'', ''rnn_cell_fw'',
              ''input_size''] = Some (c + w))
       = (c = 30 \<and> w = 100))"
proof -
  have keys: "List.member (all_keys config) ''word_emb'' = False"
    by code_simp
  have none: "lookup config [''NER'', ''config_model'', ''word_emb'', ''dim''] = None"
    by code_simp
  have pin: "((30::int) = c \<and> (130::int) = c + w) = (c = 30 \<and> w = 100)"
    by auto
  show ?thesis
    using keys none pin by (simp add: int_at_input_size int_at_char_emb_dim)
qed

section \<open>Properties of the notebook and the commands\<close>

lemma notebook_code_spans:
  "map unquote (concat (map code_spans (markdown_of notebook))) =
   [''DictionaryReplacementOp'', ''BackTranslationOp'', ''DistributionReplacementOp'',
    ''EmbeddingSimilarityOp'', ''forte.processors.data_augment.algorithms'', ''data_aug_op'',
    ''kwargs'', ''data_aug_op_config'', ''ReplacementDataAugmentProcessor'', ''MultiPack'',
    ''MultiPack'', ''DataPack'', ''DataPack'', ''MultiPack'', ''MultiPack'', ''DataPack'',
    ''augment_entry'', ''other_entry_policy'', ''augment_entry'', ''auto_align'', ''Link'',
    ''MultiPackLink'', ''Group'', ''MultiPackGroup'', ''Annotation'', ''DataPack'']"
  by code_simp

lemma data_aug_op_value:
  "getitem processor_config ''data_aug_op'' =
   Some (Str ''forte.processors.data_augment.algorithms.back_translation_op.BackTranslationOp'')"
  by code_simp

lemma invocations_da_rl_script:
  "invocations da_rl_script =
   [[''python'', ''download_imdb.py''],
    [''python'', ''utils/imdb_format.py'', ''--raw_data_dir=data/IMDB_raw/aclImdb'',
     ''--train_id_path=data/IMDB_raw/train_id_list.txt'', ''--output_dir=data/IMDB''],
    [''python'', ''prepare_dataset.py''],
    [''python'', ''main.py'', ''--do-train'', ''--do-eval'', ''--do-test'']]"
  by code_simp

text \<open>
  C4. The script runs exactly four commands, in this order: \<open>download_imdb.py\<close>, then
  \<open>utils/imdb_format.py\<close>, then \<open>prepare_dataset.py\<close>, then \<open>main.py\<close>, each with
  \<open>python\<close>. Of the flags \<open>--do-train\<close>, \<open>--do-eval\<close> and \<open>--do-test\<close> the first three
  commands have none, and \<open>main.py\<close> has all three, in that order, and no other argument.
\<close>

theorem script_runs_four_steps_in_order:
  "length (invocations da_rl_script) = 4
   \<and> map (take 2) (invocations da_rl_script) =
       [[''python'', ''download_imdb.py''], [''python'', ''utils/imdb_format.py''],
        [''python'', ''prepare_dataset.py''], [''python'', ''main.py'']]
   \<and> map run_flags_of (invocations da_rl_script) =
       [[], [], [], [''--do-train'', ''--do-eval'', ''--do-test'']]
   \<and> map (drop 2) (invocations da_rl_script) =
       [[],
        [''--raw_data_dir=data/IMDB_raw/aclImdb'',
         ''--train_id_path=data/IMDB_raw/train_id_list.txt'', ''--output_dir=data/IMDB''],
        [],
        [''--do-train'', ''--do-eval'', ''--do-test'']]"
  unfolding invocations_da_rl_script by code_simp

text \<open>
  C5. The keys of \<open>processor_config\<close> are exactly the five strings \<open>augment_entry\<close>,
  \<open>other_entry_policy\<close>, \<open>type\<close>, \<open>data_aug_op\<close> and \<open>data_aug_op_config\<close>, each once.
\<close>

theorem processor_config_has_five_keys:
  "dict_keys processor_config =
     [Str ''augment_entry'', Str ''other_entry_policy'', Str ''type'', Str ''data_aug_op'',
      Str ''data_aug_op_config'']
   \<and> length (dict_keys processor_config) = 5
   \<and> distinct (dict_keys processor_config)"
  by code_simp

text \<open>
  C7. The markdown of the notebook names each of the four replacement ops
  (\<open>DictionaryReplacementOp\<close>, \<open>BackTranslationOp\<close>, \<open>DistributionReplacementOp\<close>,
  \<open>EmbeddingSimilarityOp\<close>) in a code span. \<open>processor_config\<close> configures one of them:
  its \<open>data_aug_op\<close> is the qualified name of the class \<open>BackTranslationOp\<close>, and its
  \<open>data_aug_op_config\<close> holds the \<open>kwargs\<close> of that op. The code of the notebook has no
  class or function definition at all, and none of the names it binds by an import or an
  assignment is one of the four.
\<close>

theorem replacement_ops_named_configured_not_defined:
  "filter (List.member replacement_ops)
     (map unquote (concat (map code_spans (markdown_of notebook)))) =
     [''DictionaryReplacementOp'', ''BackTranslationOp'', ''DistributionReplacementOp'',
      ''EmbeddingSimilarityOp'']
   \<and> getitem processor_config ''data_aug_op'' =
       Some (Str
         ''forte.processors.data_augment.algorithms.back_translation_op.BackTranslationOp'')
   \<and> class_name
         ''forte.processors.data_augment.algorithms.back_translation_op.BackTranslationOp''
       = ''BackTranslationOp''
   \<and> map_option dict_keys (getitem processor_config ''data_aug_op_config'')
       = Some [Str ''kwargs'']
   \<and> concat (map defined_names (code_of notebook)) = []
   \<and> concat (map bound_names (code_of notebook)) =
       [''ReplacementDataAugmentProcessor'', ''Pipeline'', ''nlp'', ''processor_config'',
        ''processor'']
   \<and> filter (List.member replacement_ops) (concat (map bound_names (code_of notebook))) = []"
  unfolding notebook_code_spans data_aug_op_value by code_simp

text \<open>
  C10. The value of \<open>data_aug_op\<close> in \<open>processor_config\<close> is a qualified name: the class
  \<open>BackTranslationOp\<close> in the module
  \<open>forte.processors.data_augment.algorithms.back_translation_op\<close>. Its module path begins
  with the components of \<open>forte.processors.data_augment.algorithms\<close>, the package that the
  markdown of the notebook names, in a code span, as the place of the replacement ops.
\<close>

theorem data_aug_op_under_algorithms_package:
  "getitem processor_config ''data_aug_op'' =
     Some (Str
       ''forte.processors.data_augment.algorithms.back_translation_op.BackTranslationOp'')
   \<and> module_path
         ''forte.processors.data_augment.algorithms.back_translation_op.BackTranslationOp''
       = [''forte'', ''processors'', ''data_augment'', ''algorithms'', ''back_translation_op'']
   \<and> class_name
         ''forte.processors.data_augment.algorithms.back_translation_op.BackTranslationOp''
       = ''BackTranslationOp''
   \<and> under_package ''forte.processors.data_augment.algorithms''
         ''forte.processors.data_augment.algorithms.back_translation_op.BackTranslationOp''
   \<and> List.member (map unquote (concat (map code_spans (markdown_of notebook))))
         ''forte.processors.data_augment.algorithms''"
  unfolding notebook_code_spans data_aug_op_value by code_simp

end
